theory Spec2Isabelle
  imports Complex_Main
begin

section \<open>Go values and conversions used by the program\<close>

text \<open>
  What \<^verbatim>\<open>encoding/json\<close> stores in an \<^verbatim>\<open>interface{}\<close>: nil, bool, float64, string,
  a slice, or a \<^verbatim>\<open>map[string]interface{}\<close>. A JSON number always becomes a finite float64
  (a number too large for float64 makes \<^verbatim>\<open>json.Unmarshal\<close> fail), so the reals
  over-approximate the float64 values a payload can carry. A decoded map is kept as an
  association list read with \<open>map_of\<close>.
\<close>

datatype go_value =
    GoNil
  | GoBool bool
  | GoFloat64 real
  | GoString string
  | GoSlice "go_value list"
  | GoMap "(string \<times> go_value) list"

type_synonym go_map = "(string \<times> go_value) list"

text \<open>\<^verbatim>\<open>m[key]\<close> on a \<^verbatim>\<open>map[string]interface{}\<close>: the nil interface when the key is missing
  (also on a nil map).\<close>

definition index :: "go_map \<Rightarrow> string \<Rightarrow> go_value" where
  "index m key = (case map_of m key of None \<Rightarrow> GoNil | Some v \<Rightarrow> v)"

text \<open>The comma-ok type assertions \<^verbatim>\<open>v.(string)\<close>, \<^verbatim>\<open>v.(map[string]interface{})\<close> and
  \<^verbatim>\<open>v.(float64)\<close>: \<open>None\<close> is \<^verbatim>\<open>ok == false\<close>.\<close>

fun assert_string :: "go_value \<Rightarrow> string option" where
  "assert_string (GoString s) = Some s"
| "assert_string _ = None"

fun assert_map :: "go_value \<Rightarrow> go_map option" where
  "assert_map (GoMap m) = Some m"
| "assert_map _ = None"

fun assert_float64 :: "go_value \<Rightarrow> real option" where
  "assert_float64 (GoFloat64 x) = Some x"
| "assert_float64 _ = None"

text \<open>
  The conversion \<^verbatim>\<open>int(x)\<close> of a float64 on the 64-bit targets of the Makefile. Go discards
  the fraction (truncation toward zero) when the result fits the integer type; when it does
  not, the language leaves the result to the implementation, which is the parameter
  \<open>impl\<close> here.
\<close>

definition trunc :: "real \<Rightarrow> int" where
  "trunc x = (if 0 \<le> x then \<lfloor>x\<rfloor> else - \<lfloor>- x\<rfloor>)"

definition fits_int :: "real \<Rightarrow> bool" where
  "fits_int x = (- (2 ^ 63) \<le> trunc x \<and> trunc x < 2 ^ 63)"

definition float64_to_int :: "(real \<Rightarrow> int) \<Rightarrow> real \<Rightarrow> int" where
  "float64_to_int impl x = (if fits_int x then trunc x else impl x)"

text \<open>
  \<^verbatim>\<open>strconv.Atoi\<close> as its documentation has it (\<^verbatim>\<open>ParseInt(s, 10, 0)\<close>): an optional sign,
  then one or more decimal digits, and a value in the range of a 64-bit int; anything else
  is an error (\<open>None\<close>).
\<close>

definition digit_of :: "char \<Rightarrow> nat option" where
  "digit_of c =
     (let n = (of_char c :: nat) in if 48 \<le> n \<and> n \<le> 57 then Some (n - 48) else None)"

fun parse_digits :: "nat \<Rightarrow> string \<Rightarrow> nat option" where
  "parse_digits acc [] = Some acc"
| "parse_digits acc (c # cs) =
     (case digit_of c of None \<Rightarrow> None | Some d \<Rightarrow> parse_digits (10 * acc + d) cs)"

definition Atoi :: "string \<Rightarrow> int option" where
  "Atoi s =
     (case s of
        [] \<Rightarrow> None
      | c # cs \<Rightarrow>
          (let neg = (c = CHR ''-'');
               ds = (if c = CHR ''-'' \<or> c = CHR ''+'' then cs else s)
           in if ds = [] then None
              else (case parse_digits 0 ds of
                      None \<Rightarrow> None
                    | Some n \<Rightarrow>
                        (let v = (if neg then - int n else int n)
                         in if - (2 ^ 63) \<le> v \<and> v < 2 ^ 63 then Some v else None))))"

section \<open>internal/config: the configuration and its loading\<close>

record Config =
  ThinQPAT :: string
  CountryCode :: string
  ClientID :: string
  MinTemperature :: int

datatype load_error = ErrDotenv | ErrPATRequired

text \<open>\<^verbatim>\<open>generateClientID\<close>: every character of the UUID string outside
  \<^verbatim>\<open>[a-zA-Z0-9:_-]\<close> becomes a hyphen, after the prefix. The UUID is random: a parameter.\<close>

definition valid_id_char :: "char \<Rightarrow> bool" where
  "valid_id_char c =
     (let n = (of_char c :: nat)
      in (97 \<le> n \<and> n \<le> 122) \<or> (65 \<le> n \<and> n \<le> 90) \<or> (48 \<le> n \<and> n \<le> 57)
         \<or> c = CHR '':'' \<or> c = CHR ''_'' \<or> c = CHR ''-'')"

definition generateClientID :: "string \<Rightarrow> string" where
  "generateClientID uuid =
     ''go-thinq-'' @ map (\<lambda>c. if valid_id_char c then c else CHR ''-'') uuid"

text \<open>
  \<^verbatim>\<open>Load\<close>. Its surroundings are parameters: whether \<^verbatim>\<open>godotenv.Load\<close> succeeded, the
  environment \<^verbatim>\<open>os.Getenv\<close> reads afterwards (the empty string for an unset variable), and
  the UUID drawn when no client id is configured.
\<close>

definition Load :: "bool \<Rightarrow> (string \<Rightarrow> string) \<Rightarrow> string \<Rightarrow> load_error + Config" where
  "Load dotenv_ok getenv uuid =
     (if \<not> dotenv_ok then Inl ErrDotenv
      else
        (let minTemp0 = (21 :: int);
             tempStr = getenv ''MIN_TEMPERATURE'';
             minTemp1 =
               (if tempStr \<noteq> []
                then (case Atoi tempStr of Some temp \<Rightarrow> temp | None \<Rightarrow> minTemp0)
                else minTemp0);
             minTemp = (if minTemp1 < 21 then 21 else minTemp1);
             cfg = \<lparr>ThinQPAT = getenv ''THINQ_PAT'',
                    CountryCode = getenv ''THINQ_COUNTRY_CODE'',
                    ClientID = getenv ''THINQ_CLIENT_ID'',
                    MinTemperature = minTemp\<rparr>
         in if ThinQPAT cfg = [] then Inl ErrPATRequired
            else
              (let cfg1 = (if CountryCode cfg = [] then cfg\<lparr>CountryCode := ''BR''\<rparr> else cfg);
                   cfg2 = (if ClientID cfg1 = []
                           then cfg1\<lparr>ClientID := generateClientID uuid\<rparr> else cfg1)
               in Inr cfg2)))"

section \<open>internal/thinq: the API client\<close>

record Client =
  accessToken :: string
  countryCode :: string
  clientID :: string

definition NewClient :: "string \<Rightarrow> string \<Rightarrow> string \<Rightarrow> Client" where
  "NewClient token country cid =
     \<lparr>accessToken = token, countryCode = country, clientID = cid\<rparr>"

record Device =
  DeviceID :: string
  DeviceType :: string
  ModelName :: string
  Alias :: string
  Reportable :: bool

record ErrorDetail =
  err_Message :: string
  err_Code :: string

record ErrorResponseNested =
  ern_MessageID :: string
  ern_Timestamp :: string
  ern_Error :: ErrorDetail

record ClientRegisterRequest =
  reg_Type :: string
  reg_ServiceCode :: string
  reg_DeviceType :: string
  reg_AllowExist :: bool

record CertificateRequest =
  csr_ServiceCode :: string
  csr_CSR :: string

record CertificateInfo =
  CertificatePem :: string
  Subscriptions :: "string list"
  Publications :: "string list"

record CertificateResponseData =
  ResultCode :: string
  Result :: CertificateInfo

record CertificateResponse =
  cr_MessageID :: string
  cr_Timestamp :: string
  cr_Response :: CertificateResponseData

record MQTTCredentials =
  cred_Certificate :: string
  cred_PrivateKey :: string
  cred_Subscriptions :: "string list"

text \<open>
  One HTTP exchange. The request carries the value handed to \<^verbatim>\<open>json.Marshal\<close> (which
  cannot fail on these fixed shapes of strings, booleans and integers) and whether the
  \<^verbatim>\<open>x-conditional-control\<close> header is added; the headers of \<^verbatim>\<open>setHeaders\<close> are determined
  by the client, which the transport receives. The response carries the status code, the
  raw body, and what \<^verbatim>\<open>json.Unmarshal\<close> makes of the body for the two struct types the
  client decodes it into (\<open>None\<close>: Unmarshal returned an error). The transport itself,
  \<^verbatim>\<open>http.NewRequest\<close>, \<^verbatim>\<open>httpClient.Do\<close> and \<^verbatim>\<open>io.ReadAll\<close> together, is a parameter.
\<close>

datatype req_body =
    RegisterBody ClientRegisterRequest
  | CertificateBody CertificateRequest
  | ExpireBody string nat
  | TemperatureBody int

record request =
  Method :: string
  URL :: string
  ConditionalControl :: bool
  ReqBody :: "req_body option"

record http_response =
  StatusCode :: int
  RawBody :: string
  NestedError :: "ErrorResponseNested option"
  CertificateJSON :: "CertificateResponse option"

datatype http_result =
    NewRequestFailed
  | DoFailed
  | ReadAllFailed
  | Response http_response

type_synonym transport = "Client \<Rightarrow> request \<Rightarrow> http_result"

datatype error =
    ErrCreateRequest
  | ErrExecuteRequest
  | ErrReadBody
  | ErrStatus int string
  | ErrAPI string string
  | ErrParseResponse
  | ErrGenerateKey
  | ErrCreateCSR
  | ErrRegisterClient error
  | ErrGenerateCSR error

definition baseURL :: string where
  "baseURL = ''https://api-aic.lgthinq.com''"

definition StatusOK :: int where "StatusOK = 200"
definition StatusNotFound :: int where "StatusNotFound = 404"
definition StatusConflict :: int where "StatusConflict = 409"

definition registerClient :: "transport \<Rightarrow> Client \<Rightarrow> error option" where
  "registerClient http c =
     (let regReq = \<lparr>reg_Type = ''MQTT'', reg_ServiceCode = ''SVC202'',
                     reg_DeviceType = ''607'', reg_AllowExist = True\<rparr>;
          req = \<lparr>Method = ''POST'', URL = baseURL @ ''/client'',
                  ConditionalControl = False, ReqBody = Some (RegisterBody regReq)\<rparr>
      in case http c req of
           NewRequestFailed \<Rightarrow> Some ErrCreateRequest
         | DoFailed \<Rightarrow> Some ErrExecuteRequest
         | ReadAllFailed \<Rightarrow> Some ErrReadBody
         | Response resp \<Rightarrow>
             if StatusCode resp \<noteq> StatusOK \<and> StatusCode resp \<noteq> StatusConflict
             then Some (ErrStatus (StatusCode resp) (RawBody resp))
             else None)"

definition SubscribeToDeviceEvents :: "transport \<Rightarrow> Client \<Rightarrow> string \<Rightarrow> error option" where
  "SubscribeToDeviceEvents http c deviceID =
     (let req = \<lparr>Method = ''POST'', URL = baseURL @ ''/event/'' @ deviceID @ ''/subscribe'',
                  ConditionalControl = False, ReqBody = Some (ExpireBody ''HOUR'' 4464)\<rparr>
      in case http c req of
           NewRequestFailed \<Rightarrow> Some ErrCreateRequest
         | DoFailed \<Rightarrow> Some ErrExecuteRequest
         | ReadAllFailed \<Rightarrow> Some ErrReadBody
         | Response resp \<Rightarrow>
             if StatusCode resp \<noteq> StatusOK \<and> StatusCode resp \<noteq> StatusConflict
             then Some (ErrStatus (StatusCode resp) (RawBody resp))
             else None)"

definition SubscribeToPushNotifications :: "transport \<Rightarrow> Client \<Rightarrow> string \<Rightarrow> error option" where
  "SubscribeToPushNotifications http c deviceID =
     (let req = \<lparr>Method = ''POST'', URL = baseURL @ ''/push/'' @ deviceID @ ''/subscribe'',
                  ConditionalControl = False, ReqBody = None\<rparr>
      in case http c req of
           NewRequestFailed \<Rightarrow> Some ErrCreateRequest
         | DoFailed \<Rightarrow> Some ErrExecuteRequest
         | ReadAllFailed \<Rightarrow> Some ErrReadBody
         | Response resp \<Rightarrow>
             if StatusCode resp \<noteq> StatusOK \<and> StatusCode resp \<noteq> StatusConflict
                \<and> StatusCode resp \<noteq> StatusNotFound
             then Some (ErrStatus (StatusCode resp) (RawBody resp))
             else if StatusCode resp = StatusNotFound
             then (case NestedError resp of
                     Some errResp \<Rightarrow>
                       if err_Code (ern_Error errResp) \<noteq> ''1207''
                       then Some (ErrAPI (err_Code (ern_Error errResp))
                                         (err_Message (ern_Error errResp)))
                       else None
                   | None \<Rightarrow> None)
             else None)"

definition SetTemperature :: "transport \<Rightarrow> Client \<Rightarrow> string \<Rightarrow> int \<Rightarrow> error option" where
  "SetTemperature http c deviceID temperature =
     (let req = \<lparr>Method = ''POST'', URL = baseURL @ ''/devices/'' @ deviceID @ ''/control'',
                  ConditionalControl = True, ReqBody = Some (TemperatureBody temperature)\<rparr>
      in case http c req of
           NewRequestFailed \<Rightarrow> Some ErrCreateRequest
         | DoFailed \<Rightarrow> Some ErrExecuteRequest
         | ReadAllFailed \<Rightarrow> Some ErrReadBody
         | Response resp \<Rightarrow>
             if StatusCode resp \<noteq> StatusOK
             then Some (ErrStatus (StatusCode resp) (RawBody resp))
             else None)"

text \<open>
  The cryptography of \<^verbatim>\<open>generateCSR\<close> is the standard library's: key generation and
  request signing (both reading \<^verbatim>\<open>rand.Reader\<close>), PKCS#1 marshalling and PEM encoding are
  parameters, gathered in one record; \<open>'k\<close> is the type of private keys.
\<close>

record pkix_Name =
  CommonName :: string

record x509_CertificateRequest =
  Subject :: pkix_Name

record pem_Block =
  pem_Type :: string
  pem_Bytes :: string

record 'k crypto =
  rsa_GenerateKey :: "nat \<Rightarrow> 'k option"
  x509_CreateCertificateRequest :: "x509_CertificateRequest \<Rightarrow> 'k \<Rightarrow> string option"
  x509_MarshalPKCS1PrivateKey :: "'k \<Rightarrow> string"
  pem_EncodeToMemory :: "pem_Block \<Rightarrow> string"

definition generateCSR :: "'k crypto \<Rightarrow> string \<Rightarrow> error + (string \<times> string)" where
  "generateCSR lib cid =
     (case rsa_GenerateKey lib 2048 of
        None \<Rightarrow> Inl ErrGenerateKey
      | Some privateKey \<Rightarrow>
          (let template = \<lparr>Subject = \<lparr>CommonName = ''lg_thinq''\<rparr>\<rparr>
           in case x509_CreateCertificateRequest lib template privateKey of
                None \<Rightarrow> Inl ErrCreateCSR
              | Some csrDER \<Rightarrow>
                  (let csrPEM = pem_EncodeToMemory lib
                         \<lparr>pem_Type = ''CERTIFICATE REQUEST'', pem_Bytes = csrDER\<rparr>;
                       privateKeyPEM = pem_EncodeToMemory lib
                         \<lparr>pem_Type = ''RSA PRIVATE KEY'',
                          pem_Bytes = x509_MarshalPKCS1PrivateKey lib privateKey\<rparr>
                   in Inr (privateKeyPEM, csrPEM))))"

definition GetMQTTCredentials :: "'k crypto \<Rightarrow> transport \<Rightarrow> Client \<Rightarrow> error + MQTTCredentials" where
  "GetMQTTCredentials lib http c =
     (case registerClient http c of
        Some err \<Rightarrow> Inl (ErrRegisterClient err)
      | None \<Rightarrow>
          (case generateCSR lib (clientID c) of
             Inl err \<Rightarrow> Inl (ErrGenerateCSR err)
           | Inr (privateKey, csrPEM) \<Rightarrow>
               (let certReq = \<lparr>csr_ServiceCode = ''SVC202'', csr_CSR = csrPEM\<rparr>;
                    req = \<lparr>Method = ''POST'', URL = baseURL @ ''/client/certificate'',
                            ConditionalControl = False, ReqBody = Some (CertificateBody certReq)\<rparr>
                in case http c req of
                     NewRequestFailed \<Rightarrow> Inl ErrCreateRequest
                   | DoFailed \<Rightarrow> Inl ErrExecuteRequest
                   | ReadAllFailed \<Rightarrow> Inl ErrReadBody
                   | Response resp \<Rightarrow>
                       if StatusCode resp \<noteq> StatusOK
                       then Inl (ErrStatus (StatusCode resp) (RawBody resp))
                       else (case CertificateJSON resp of
                               None \<Rightarrow> Inl ErrParseResponse
                             | Some certResp \<Rightarrow>
                                 Inr \<lparr>cred_Certificate =
                                        CertificatePem (Result (cr_Response certResp)),
                                      cred_PrivateKey = privateKey,
                                      cred_Subscriptions =
                                        Subscriptions (Result (cr_Response certResp))\<rparr>))))"

section \<open>cmd/economizador: the message handlers\<close>

text \<open>
  What one invocation of a handler does to the outside, in order: the log lines it prints
  (by their format arguments; the clock reading of the second program's line is left out)
  and the calls of \<^verbatim>\<open>client.SetTemperature(deviceID, temperature)\<close> it makes.
\<close>

datatype log_line =
    LogAdjusting string real int
  | LogTemperature real int
  | LogDevice string
  | LogFailed error
  | LogAdjusted

datatype effect =
    Log log_line
  | Control string int

text \<open>
  \<^verbatim>\<open>createMessageHandler\<close> returns a function literal; the model returns the variables the
  literal captures, and \<open>invoke\<close> is the literal's body run on them. The body hands the
  captured variables back, so that a write to them would show. The message is given by
  what \<^verbatim>\<open>json.Unmarshal\<close> makes of its payload for a \<^verbatim>\<open>map[string]interface{}\<close>
  (\<open>None\<close>: Unmarshal returned an error; the payload \<^verbatim>\<open>null\<close> gives the empty map).
\<close>

record handler_env =
  env_client :: Client
  deviceAliases :: "string \<rightharpoonup> string"

record min_handler_env = handler_env +
  minTemperature :: int

definition alias_table :: "Device list \<Rightarrow> (string \<rightharpoonup> string)" where
  "alias_table devices = foldl (\<lambda>m device. m(DeviceID device \<mapsto> Alias device)) Map.empty devices"

text \<open>The first program (minimum threshold), \<^verbatim>\<open>createMessageHandler(client, devices,
  minTemperature)\<close>.\<close>

definition createMessageHandler_min :: "Client \<Rightarrow> Device list \<Rightarrow> int \<Rightarrow> min_handler_env" where
  "createMessageHandler_min client devices minTemp =
     \<lparr>env_client = client, deviceAliases = alias_table devices, minTemperature = minTemp\<rparr>"

definition invoke_min ::
  "(real \<Rightarrow> int) \<Rightarrow> transport \<Rightarrow> min_handler_env \<Rightarrow> go_map option \<Rightarrow> min_handler_env \<times> effect list"
where
  "invoke_min impl http h payload =
     (case payload of
        None \<Rightarrow> (h, [])
      | Some event \<Rightarrow>
     (case assert_string (index event ''pushType'') of
        None \<Rightarrow> (h, [])
      | Some pushType \<Rightarrow>
     if pushType \<noteq> ''DEVICE_STATUS'' then (h, [])
     else
     (case assert_string (index event ''deviceId'') of
        None \<Rightarrow> (h, [])
      | Some deviceID \<Rightarrow>
     (let alias0 = (case deviceAliases h deviceID of None \<Rightarrow> [] | Some a \<Rightarrow> a);
          alias = (if alias0 = [] then deviceID else alias0)
      in
     (case assert_map (index event ''report'') of
        None \<Rightarrow> (h, [])
      | Some report \<Rightarrow>
     (case assert_map (index report ''temperature'') of
        None \<Rightarrow> (h, [])
      | Some temperature \<Rightarrow>
     (case assert_float64 (index temperature ''targetTemperature'') of
        None \<Rightarrow> (h, [])
      | Some targetTemp \<Rightarrow>
     if float64_to_int impl targetTemp \<ge> minTemperature h then (h, [])
     else
       (h, [Log (LogAdjusting alias targetTemp (minTemperature h)),
            Control deviceID (minTemperature h),
            Log (case SetTemperature http (env_client h) deviceID (minTemperature h) of
                   Some err \<Rightarrow> LogFailed err
                 | None \<Rightarrow> LogAdjusted)]))))))))"

text \<open>The second program (fixed target), \<^verbatim>\<open>createMessageHandler(client, devices)\<close> with the
  constant \<^verbatim>\<open>targetTemperature\<close>.\<close>

definition targetTemperature :: int where
  "targetTemperature = 24"

definition createMessageHandler_fixed :: "Client \<Rightarrow> Device list \<Rightarrow> handler_env" where
  "createMessageHandler_fixed client devices =
     \<lparr>env_client = client, deviceAliases = alias_table devices\<rparr>"

definition invoke_fixed ::
  "(real \<Rightarrow> int) \<Rightarrow> transport \<Rightarrow> handler_env \<Rightarrow> go_map option \<Rightarrow> handler_env \<times> effect list"
where
  "invoke_fixed impl http h payload =
     (case payload of
        None \<Rightarrow> (h, [])
      | Some event \<Rightarrow>
     (case assert_string (index event ''pushType'') of
        None \<Rightarrow> (h, [])
      | Some pushType \<Rightarrow>
     if pushType \<noteq> ''DEVICE_STATUS'' then (h, [])
     else
     (case assert_string (index event ''deviceId'') of
        None \<Rightarrow> (h, [])
      | Some deviceID \<Rightarrow>
     (let alias0 = (case deviceAliases h deviceID of None \<Rightarrow> [] | Some a \<Rightarrow> a);
          alias = (if alias0 = [] then deviceID else alias0)
      in
     (case assert_map (index event ''report'') of
        None \<Rightarrow> (h, [])
      | Some report \<Rightarrow>
     (case assert_map (index report ''temperature'') of
        None \<Rightarrow> (h, [])
      | Some temperature \<Rightarrow>
     (case assert_float64 (index temperature ''targetTemperature'') of
        None \<Rightarrow> (h, [])
      | Some targetTemp \<Rightarrow>
     if float64_to_int impl targetTemp = targetTemperature then (h, [])
     else
       (h, [Log (LogTemperature targetTemp targetTemperature),
            Log (LogDevice alias),
            Control deviceID targetTemperature,
            Log (case SetTemperature http (env_client h) deviceID targetTemperature of
                   Some err \<Rightarrow> LogFailed err
                 | None \<Rightarrow> LogAdjusted)]))))))))"

text \<open>The control calls among the effects of an invocation, as (device id, temperature).\<close>

fun commands :: "effect list \<Rightarrow> (string \<times> int) list" where
  "commands [] = []"
| "commands (Control d v # es) = (d, v) # commands es"
| "commands (Log l # es) = commands es"

section \<open>Truncation in the words of the specification\<close>

text \<open>
  "Truncated toward zero to an integer degree": \<open>z\<close> is \<open>x\<close> truncated toward zero when
  \<open>z\<close> is no larger than \<open>x\<close> in magnitude and less than one away from it.
\<close>

definition truncated_toward_zero :: "real \<Rightarrow> int \<Rightarrow> bool" where
  "truncated_toward_zero x z = (\<bar>real_of_int z\<bar> \<le> \<bar>x\<bar> \<and> \<bar>x - real_of_int z\<bar> < 1)"

section \<open>Concrete inputs\<close>

text \<open>The scenario of the specification: one device \<^verbatim>\<open>D1\<close> with alias "Living Room", and a
  device-status event for it reporting the target temperature \<open>t\<close>.\<close>

definition living_room :: Device where
  "living_room = \<lparr>DeviceID = ''D1'', DeviceType = ''DEVICE_AIR_CONDITIONER'',
                   ModelName = ''AC'', Alias = ''Living Room'', Reportable = True\<rparr>"

definition status_event :: "string \<Rightarrow> real \<Rightarrow> go_map" where
  "status_event d t =
     [(''pushType'', GoString ''DEVICE_STATUS''),
      (''deviceId'', GoString d),
      (''report'', GoMap [(''temperature'', GoMap [(''targetTemperature'', GoFloat64 t)])])]"

definition sample_client :: Client where
  "sample_client = NewClient ''pat'' ''BR'' ''go-thinq-0''"

text \<open>A backend that answers every request with 200 and an empty body, and one possible
  behaviour of the float conversion outside the integer range (saturation).\<close>

definition backend_ok :: transport where
  "backend_ok c req =
     Response \<lparr>StatusCode = 200, RawBody = [], NestedError = None, CertificateJSON = None\<rparr>"

definition saturating :: "real \<Rightarrow> int" where
  "saturating x = (if x < 0 then - (2 ^ 63) else 2 ^ 63 - 1)"


text \<open>A backend that answers every request with 409 (already registered or subscribed),
  and a gateway that answers every request with 404 and a body that is not JSON.\<close>

definition backend_conflict :: transport where
  "backend_conflict c req =
     Response \<lparr>StatusCode = 409, RawBody = [], NestedError = None, CertificateJSON = None\<rparr>"

definition gateway_not_found :: transport where
  "gateway_not_found c req =
     Response \<lparr>StatusCode = 404, RawBody = ''<html>404 Not Found</html>'',
               NestedError = None, CertificateJSON = None\<rparr>"

text \<open>A backend whose 404 carries a decodable error with the given code.\<close>

definition backend_not_found :: "string \<Rightarrow> transport" where
  "backend_not_found code c req =
     Response \<lparr>StatusCode = 404, RawBody = [],
               NestedError = Some \<lparr>ern_MessageID = [], ern_Timestamp = [],
                                   ern_Error = \<lparr>err_Message = ''message'', err_Code = code\<rparr>\<rparr>,
               CertificateJSON = None\<rparr>"

text \<open>Environments for \<open>Load\<close>: a token and a minimum temperature setting.\<close>

definition sample_env :: "string \<Rightarrow> string \<Rightarrow> string" where
  "sample_env temp key =
     (if key = ''THINQ_PAT'' then ''pat''
      else if key = ''MIN_TEMPERATURE'' then temp
      else [])"

text \<open>A stand-in for the cryptographic library, with strings as keys, and a backend that
  registers the client and signs whatever request it is sent.\<close>

definition sample_lib :: "string crypto" where
  "sample_lib =
     \<lparr>rsa_GenerateKey = (\<lambda>bits. Some ''key''),
      x509_CreateCertificateRequest = (\<lambda>template key. Some (CommonName (Subject template) @ ''/'' @ key)),
      x509_MarshalPKCS1PrivateKey = (\<lambda>key. ''pkcs1:'' @ key),
      pem_EncodeToMemory = (\<lambda>b. pem_Type b @ '':'' @ pem_Bytes b)\<rparr>"

definition signed_certificate :: CertificateResponse where
  "signed_certificate =
     \<lparr>cr_MessageID = [], cr_Timestamp = [],
      cr_Response = \<lparr>ResultCode = ''0000'',
                     Result = \<lparr>CertificatePem = ''CERT'',
                                Subscriptions = [''app/clients/go-thinq-0/push''],
                                Publications = []\<rparr>\<rparr>\<rparr>"

definition backend_signing :: transport where
  "backend_signing c req =
     Response \<lparr>StatusCode = 200, RawBody = [], NestedError = None,
               CertificateJSON = Some signed_certificate\<rparr>"

section \<open>Auxiliary facts\<close>

lemma assert_string_Some: "assert_string v = Some s \<longleftrightarrow> v = GoString s"
  by (cases v) simp_all

lemma assert_map_Some: "assert_map v = Some m \<longleftrightarrow> v = GoMap m"
  by (cases v) simp_all

lemma assert_float64_Some: "assert_float64 v = Some x \<longleftrightarrow> v = GoFloat64 x"
  by (cases v) simp_all



lemma trunc_truncated: "truncated_toward_zero x (trunc x)"
proof (cases "0 \<le> x")
  case True
  define n where "n = \<lfloor>x\<rfloor>"
  have n0: "0 \<le> n" using True by (simp add: n_def)
  have lo: "real_of_int n \<le> x" and hi: "x < real_of_int n + 1"
    unfolding n_def by linarith+
  have "trunc x = n" using True by (simp add: trunc_def n_def)
  moreover have "\<bar>real_of_int n\<bar> \<le> \<bar>x\<bar>" using n0 lo by linarith
  moreover have "\<bar>x - real_of_int n\<bar> < 1" using lo hi by linarith
  ultimately show ?thesis by (simp add: truncated_toward_zero_def)
next
  case False
  define n where "n = \<lfloor>- x\<rfloor>"
  have n0: "0 \<le> n" using False by (simp add: n_def)
  have lo: "real_of_int n \<le> - x" and hi: "- x < real_of_int n + 1"
    unfolding n_def by linarith+
  have "trunc x = - n" using False by (simp add: trunc_def n_def)
  moreover have "\<bar>real_of_int (- n)\<bar> \<le> \<bar>x\<bar>" using n0 lo by simp
  moreover have "\<bar>x - real_of_int (- n)\<bar> < 1" using lo hi by simp
  ultimately show ?thesis by (simp only: truncated_toward_zero_def)
qed

lemma alias_table_step:
  "d \<notin> DeviceID ` set devices \<Longrightarrow>
   foldl (\<lambda>m device. m(DeviceID device \<mapsto> Alias device)) m0 devices d = m0 d"
  by (induction devices arbitrary: m0) auto

lemma alias_table_absent: "d \<notin> DeviceID ` set devices \<Longrightarrow> alias_table devices d = None"
  by (simp add: alias_table_def alias_table_step)

subsection \<open>The shape of a handler invocation\<close>

lemma invoke_min_status:
  assumes "index event ''pushType'' = GoString ''DEVICE_STATUS''"
    and "index event ''deviceId'' = GoString d"
    and "index event ''report'' = GoMap report"
    and "index report ''temperature'' = GoMap temperature"
    and "index temperature ''targetTemperature'' = GoFloat64 t"
  shows "invoke_min impl http h (Some event) =
     (if float64_to_int impl t \<ge> minTemperature h then (h, [])
      else (h, [Log (LogAdjusting
                       (case deviceAliases h d of None \<Rightarrow> d | Some a \<Rightarrow> if a = [] then d else a)
                       t (minTemperature h)),
                Control d (minTemperature h),
                Log (case SetTemperature http (env_client h) d (minTemperature h) of
                       Some err \<Rightarrow> LogFailed err | None \<Rightarrow> LogAdjusted)]))"
  using assms by (simp add: invoke_min_def Let_def split: option.split)

lemma invoke_fixed_status:
  assumes "index event ''pushType'' = GoString ''DEVICE_STATUS''"
    and "index event ''deviceId'' = GoString d"
    and "index event ''report'' = GoMap report"
    and "index report ''temperature'' = GoMap temperature"
    and "index temperature ''targetTemperature'' = GoFloat64 t"
  shows "invoke_fixed impl http h (Some event) =
     (if float64_to_int impl t = targetTemperature then (h, [])
      else (h, [Log (LogTemperature t targetTemperature),
                Log (LogDevice
                       (case deviceAliases h d of None \<Rightarrow> d | Some a \<Rightarrow> if a = [] then d else a)),
                Control d targetTemperature,
                Log (case SetTemperature http (env_client h) d targetTemperature of
                       Some err \<Rightarrow> LogFailed err | None \<Rightarrow> LogAdjusted)]))"
  using assms by (simp add: invoke_fixed_def Let_def split: option.split)

lemma invoke_min_result:
  assumes "invoke_min impl http h payload = (h', es)"
  shows "h' = h \<and> (es = [] \<or> (\<exists>event d report temperature t.
      payload = Some event
    \<and> index event ''pushType'' = GoString ''DEVICE_STATUS''
    \<and> index event ''deviceId'' = GoString d
    \<and> index event ''report'' = GoMap report
    \<and> index report ''temperature'' = GoMap temperature
    \<and> index temperature ''targetTemperature'' = GoFloat64 t
    \<and> float64_to_int impl t < minTemperature h
    \<and> commands es = [(d, minTemperature h)]))"
  using assms unfolding invoke_min_def Let_def
  by (auto split: option.splits if_splits
        simp: assert_string_Some assert_map_Some assert_float64_Some)

lemma invoke_fixed_result:
  assumes "invoke_fixed impl http h payload = (h', es)"
  shows "h' = h \<and> (es = [] \<or> (\<exists>event d report temperature t.
      payload = Some event
    \<and> index event ''pushType'' = GoString ''DEVICE_STATUS''
    \<and> index event ''deviceId'' = GoString d
    \<and> index event ''report'' = GoMap report
    \<and> index report ''temperature'' = GoMap temperature
    \<and> index temperature ''targetTemperature'' = GoFloat64 t
    \<and> float64_to_int impl t \<noteq> targetTemperature
    \<and> commands es = [(d, targetTemperature)]))"
  using assms unfolding invoke_fixed_def Let_def
  by (auto split: option.splits if_splits
        simp: assert_string_Some assert_map_Some assert_float64_Some)

subsection \<open>Configuration loading\<close>

lemma Atoi_empty: "Atoi [] = None"
  by (simp add: Atoi_def)

lemma Load_Inr:
  assumes "Load ok getenv uuid = Inr cfg"
  shows "ok \<and> getenv ''THINQ_PAT'' \<noteq> []
       \<and> MinTemperature cfg =
           (case Atoi (getenv ''MIN_TEMPERATURE'') of
              Some temp \<Rightarrow> if temp < 21 then 21 else temp
            | None \<Rightarrow> 21)"
proof (cases "getenv ''MIN_TEMPERATURE'' = []")
  case True
  with assms show ?thesis
    by (auto simp: Load_def Let_def Atoi_empty split: if_splits)
next
  case False
  with assms show ?thesis
    by (auto simp: Load_def Let_def split: if_splits option.splits)
qed

lemma Load_fails_iff: "isl (Load ok getenv uuid) \<longleftrightarrow> \<not> ok \<or> getenv ''THINQ_PAT'' = []"
  by (simp add: Load_def Let_def)

lemma Load_floor_positive: "Load ok getenv uuid = Inr cfg \<Longrightarrow> 0 < MinTemperature cfg"
  using Load_Inr [of ok getenv uuid cfg] by (simp split: option.splits)

subsection \<open>Responses of the subscription endpoints\<close>

lemma registerClient_conflict:
  assumes "http c \<lparr>Method = ''POST'', URL = baseURL @ ''/client'', ConditionalControl = False,
             ReqBody = Some (RegisterBody \<lparr>reg_Type = ''MQTT'', reg_ServiceCode = ''SVC202'',
                                          reg_DeviceType = ''607'', reg_AllowExist = True\<rparr>)\<rparr>
           = Response resp"
    and "StatusCode resp = StatusConflict"
  shows "registerClient http c = None"
  using assms by (simp add: registerClient_def)

lemma SubscribeToDeviceEvents_conflict:
  assumes "http c \<lparr>Method = ''POST'', URL = baseURL @ ''/event/'' @ deviceID @ ''/subscribe'',
             ConditionalControl = False, ReqBody = Some (ExpireBody ''HOUR'' 4464)\<rparr>
           = Response resp"
    and "StatusCode resp = StatusConflict"
  shows "SubscribeToDeviceEvents http c deviceID = None"
  using assms by (simp add: SubscribeToDeviceEvents_def)

lemma SubscribeToPushNotifications_response:
  assumes "http c \<lparr>Method = ''POST'', URL = baseURL @ ''/push/'' @ deviceID @ ''/subscribe'',
             ConditionalControl = False, ReqBody = None\<rparr>
           = Response resp"
  shows "SubscribeToPushNotifications http c deviceID =
     (if StatusCode resp = StatusOK \<or> StatusCode resp = StatusConflict then None
      else if StatusCode resp = StatusNotFound then
        (case NestedError resp of
           None \<Rightarrow> None
         | Some errResp \<Rightarrow>
             if err_Code (ern_Error errResp) = ''1207'' then None
             else Some (ErrAPI (err_Code (ern_Error errResp)) (err_Message (ern_Error errResp))))
      else Some (ErrStatus (StatusCode resp) (RawBody resp)))"
  using assms
  by (simp add: SubscribeToPushNotifications_def StatusOK_def StatusConflict_def
        StatusNotFound_def split: option.split)

lemma idempotent_conflicts_examples:
  "registerClient backend_conflict sample_client = None"
  "SubscribeToDeviceEvents backend_conflict sample_client ''D1'' = None"
  "SubscribeToPushNotifications backend_conflict sample_client ''D1'' = None"
  "SubscribeToPushNotifications (backend_not_found ''1207'') sample_client ''D1'' = None"
  "SubscribeToPushNotifications (backend_not_found ''1222'') sample_client ''D1''
     = Some (ErrAPI ''1222'' ''message'')"
  by (simp_all add: registerClient_def SubscribeToDeviceEvents_def SubscribeToPushNotifications_def
        backend_conflict_def backend_not_found_def StatusOK_def StatusConflict_def StatusNotFound_def)

section \<open>The correction policies\<close>




text \<open>
  C2 (as amended). Under the fixed-target policy, a device-status event for device \<open>d\<close>
  whose report carries the target temperature \<open>t\<close> makes the handler issue a
  SetTemperature command if and only if \<open>t\<close> truncated toward zero differs from the
  target, and the command is for \<open>d\<close> with exactly the target value.
\<close>

theorem fixed_target_correction:
  assumes "index event ''pushType'' = GoString ''DEVICE_STATUS''"
    and "index event ''deviceId'' = GoString d"
    and "index event ''report'' = GoMap report"
    and "index report ''temperature'' = GoMap temperature"
    and "index temperature ''targetTemperature'' = GoFloat64 t"
    and "fits_int t"
  shows "commands (snd (invoke_fixed impl http (createMessageHandler_fixed c devices) (Some event)))
         = (if trunc t \<noteq> targetTemperature then [(d, targetTemperature)] else [])"
proof -
  have "float64_to_int impl t = trunc t"
    using \<open>fits_int t\<close> by (simp add: float64_to_int_def)
  then show ?thesis
    using invoke_fixed_status [OF assms(1-5), of impl http "createMessageHandler_fixed c devices"]
    by simp
qed

theorem fixed_target_correction_witness:
  "commands (snd (invoke_fixed saturating backend_ok
       (createMessageHandler_fixed sample_client [living_room]) (Some (status_event ''D1'' 26))))
     = [(''D1'', 24)]
   \<and> commands (snd (invoke_fixed saturating backend_ok
       (createMessageHandler_fixed sample_client [living_room]) (Some (status_event ''D1'' 24))))
     = []"
  using fixed_target_correction [of "status_event ''D1'' 26" "''D1''"
          "[(''temperature'', GoMap [(''targetTemperature'', GoFloat64 26)])]"
          "[(''targetTemperature'', GoFloat64 26)]" 26
          saturating backend_ok sample_client "[living_room]"]
        fixed_target_correction [of "status_event ''D1'' 24" "''D1''"
          "[(''temperature'', GoMap [(''targetTemperature'', GoFloat64 24)])]"
          "[(''targetTemperature'', GoFloat64 24)]" 24
          saturating backend_ok sample_client "[living_room]"]
  by (simp add: index_def status_event_def fits_int_def trunc_def targetTemperature_def)

text \<open>The claim with the raw value compared fails at the reported value 24.5: it differs
  from the target 24, and no command is issued.\<close>

theorem fixed_target_fraction_counterexample:
  "\<not> (commands (snd (invoke_fixed saturating backend_ok
          (createMessageHandler_fixed sample_client [living_room])
          (Some (status_event ''D1'' (49 / 2))))) \<noteq> []
      \<longleftrightarrow> (49 / 2 :: real) \<noteq> real_of_int targetTemperature)"
  by (simp add: invoke_fixed_def createMessageHandler_fixed_def index_def status_event_def
        float64_to_int_def fits_int_def trunc_def targetTemperature_def)




section \<open>Safety and frame of the handlers\<close>




text \<open>
  C7. One invocation of a handler makes at most one SetTemperature call, and hands back
  the captured alias table and minimum temperature (indeed every captured variable)
  as it received them.
\<close>

theorem handler_frame:
  "length (commands (snd (invoke_min impl http h payload))) \<le> 1
   \<and> deviceAliases (fst (invoke_min impl http h payload)) = deviceAliases h
   \<and> minTemperature (fst (invoke_min impl http h payload)) = minTemperature h
   \<and> fst (invoke_min impl http h payload) = h
   \<and> length (commands (snd (invoke_fixed impl http g payload))) \<le> 1
   \<and> deviceAliases (fst (invoke_fixed impl http g payload)) = deviceAliases g
   \<and> fst (invoke_fixed impl http g payload) = g"
proof -
  obtain h' es where r: "invoke_min impl http h payload = (h', es)"
    by (cases "invoke_min impl http h payload")
  have a: "h' = h \<and> length (commands es) \<le> 1"
    using invoke_min_result [OF r] by auto
  obtain g' fs where s: "invoke_fixed impl http g payload = (g', fs)"
    by (cases "invoke_fixed impl http g payload")
  have b: "g' = g \<and> length (commands fs) \<le> 1"
    using invoke_fixed_result [OF s] by auto
  show ?thesis using a b by (simp add: r s)
qed

text \<open>
  C8. For a device-status event whose device id is not in the device list, the name the
  handler logs is the raw device id, and the commands it issues are those it issues
  with any other device list, one that knows the device included.
\<close>

theorem unknown_device_fallback:
  assumes "index event ''pushType'' = GoString ''DEVICE_STATUS''"
    and "index event ''deviceId'' = GoString d"
    and "index event ''report'' = GoMap report"
    and "index report ''temperature'' = GoMap temperature"
    and "index temperature ''targetTemperature'' = GoFloat64 t"
    and "d \<notin> DeviceID ` set devices"
  shows "snd (invoke_min impl http (createMessageHandler_min c devices m) (Some event))
           = (if float64_to_int impl t \<ge> m then []
              else [Log (LogAdjusting d t m), Control d m,
                    Log (case SetTemperature http c d m of
                           Some err \<Rightarrow> LogFailed err | None \<Rightarrow> LogAdjusted)])
       \<and> commands (snd (invoke_min impl http (createMessageHandler_min c devices m) (Some event)))
           = commands (snd (invoke_min impl http (createMessageHandler_min c known m) (Some event)))
       \<and> snd (invoke_fixed impl http (createMessageHandler_fixed c devices) (Some event))
           = (if float64_to_int impl t = targetTemperature then []
              else [Log (LogTemperature t targetTemperature), Log (LogDevice d),
                    Control d targetTemperature,
                    Log (case SetTemperature http c d targetTemperature of
                           Some err \<Rightarrow> LogFailed err | None \<Rightarrow> LogAdjusted)])
       \<and> commands (snd (invoke_fixed impl http (createMessageHandler_fixed c devices) (Some event)))
           = commands (snd (invoke_fixed impl http (createMessageHandler_fixed c known) (Some event)))"
proof -
  have absent: "alias_table devices d = None"
    using \<open>d \<notin> DeviceID ` set devices\<close> by (rule alias_table_absent)
  show ?thesis
    unfolding invoke_min_status [OF assms(1-5)] invoke_fixed_status [OF assms(1-5)]
    by (simp add: createMessageHandler_min_def createMessageHandler_fixed_def absent)
qed

theorem unknown_device_fallback_witness:
  "''D9'' \<notin> DeviceID ` set [living_room]
   \<and> snd (invoke_min saturating backend_ok
        (createMessageHandler_min sample_client [living_room] 21)
        (Some (status_event ''D9'' 18)))
      = [Log (LogAdjusting ''D9'' 18 21), Control ''D9'' 21, Log LogAdjusted]"
proof -
  have unknown: "''D9'' \<notin> DeviceID ` set [living_room]"
    by (simp add: living_room_def)
  show ?thesis
    using unknown unknown_device_fallback [of "status_event ''D9'' 18" "''D9''"
          "[(''temperature'', GoMap [(''targetTemperature'', GoFloat64 18)])]"
          "[(''targetTemperature'', GoFloat64 18)]" 18 "[living_room]"
          saturating backend_ok sample_client 21 "[]", OF _ _ _ _ _ unknown]
    by (simp add: index_def status_event_def float64_to_int_def fits_int_def trunc_def
          SetTemperature_def backend_ok_def StatusOK_def)
qed

section \<open>Subscriptions and identity\<close>

text \<open>
  C4. Registration and event subscription succeed on a conflict status
  (\<open>registerClient_conflict\<close>, \<open>SubscribeToDeviceEvents_conflict\<close>), and push
  subscription is meant to accept a "not found" status only for the error code 1207. It
  does reject every other decoded code (\<open>SubscribeToPushNotifications_response\<close>), but a
  404 whose body does not decode is accepted as well: on a gateway's 404 page the call
  returns no error.
\<close>

theorem push_not_found_unverified:
  "SubscribeToPushNotifications gateway_not_found sample_client ''D1'' = None"
  by (simp add: SubscribeToPushNotifications_def gateway_not_found_def StatusOK_def
        StatusConflict_def StatusNotFound_def)

text \<open>
  C9. When identity acquisition succeeds, a key was generated in this call (2048 bits,
  from \<^verbatim>\<open>rand.Reader\<close>), the signing request sent to the certificate endpoint is the PEM
  of a request created for that key with the subject common name \<^verbatim>\<open>lg_thinq\<close>, and the
  result holds the certificate PEM and the subscription topics of the endpoint's answer
  together with the PEM of that private key.
\<close>

theorem identity_acquisition:
  assumes "GetMQTTCredentials lib http c = Inr creds"
  shows "\<exists>key csrDER resp certResp.
      rsa_GenerateKey lib 2048 = Some key
    \<and> x509_CreateCertificateRequest lib \<lparr>Subject = \<lparr>CommonName = ''lg_thinq''\<rparr>\<rparr> key = Some csrDER
    \<and> http c \<lparr>Method = ''POST'', URL = baseURL @ ''/client/certificate'',
               ConditionalControl = False,
               ReqBody = Some (CertificateBody
                 \<lparr>csr_ServiceCode = ''SVC202'',
                  csr_CSR = pem_EncodeToMemory lib
                    \<lparr>pem_Type = ''CERTIFICATE REQUEST'', pem_Bytes = csrDER\<rparr>\<rparr>)\<rparr>
        = Response resp
    \<and> StatusCode resp = StatusOK
    \<and> CertificateJSON resp = Some certResp
    \<and> cred_Certificate creds = CertificatePem (Result (cr_Response certResp))
    \<and> cred_PrivateKey creds = pem_EncodeToMemory lib
          \<lparr>pem_Type = ''RSA PRIVATE KEY'', pem_Bytes = x509_MarshalPKCS1PrivateKey lib key\<rparr>
    \<and> cred_Subscriptions creds = Subscriptions (Result (cr_Response certResp))"
proof -
  from assms obtain privateKeyPEM csrPEM where
    gen: "generateCSR lib (clientID c) = Inr (privateKeyPEM, csrPEM)"
    by (auto simp: GetMQTTCredentials_def split: option.splits sum.splits)
  from gen obtain key csrDER where
    key: "rsa_GenerateKey lib 2048 = Some key"
    and der: "x509_CreateCertificateRequest lib \<lparr>Subject = \<lparr>CommonName = ''lg_thinq''\<rparr>\<rparr> key
              = Some csrDER"
    and csr: "csrPEM = pem_EncodeToMemory lib
                \<lparr>pem_Type = ''CERTIFICATE REQUEST'', pem_Bytes = csrDER\<rparr>"
    and pk: "privateKeyPEM = pem_EncodeToMemory lib
                \<lparr>pem_Type = ''RSA PRIVATE KEY'', pem_Bytes = x509_MarshalPKCS1PrivateKey lib key\<rparr>"
    by (auto simp: generateCSR_def Let_def split: option.splits)
  from assms gen obtain resp certResp where
    "http c \<lparr>Method = ''POST'', URL = baseURL @ ''/client/certificate'',
             ConditionalControl = False,
             ReqBody = Some (CertificateBody \<lparr>csr_ServiceCode = ''SVC202'', csr_CSR = csrPEM\<rparr>)\<rparr>
       = Response resp"
    and "StatusCode resp = StatusOK"
    and "CertificateJSON resp = Some certResp"
    and "creds = \<lparr>cred_Certificate = CertificatePem (Result (cr_Response certResp)),
                  cred_PrivateKey = privateKeyPEM,
                  cred_Subscriptions = Subscriptions (Result (cr_Response certResp))\<rparr>"
    by (auto simp: GetMQTTCredentials_def Let_def
          split: option.splits http_result.splits if_splits)
  with key der csr pk show ?thesis by auto
qed

theorem identity_acquisition_witness:
  "GetMQTTCredentials sample_lib backend_signing sample_client
     = Inr \<lparr>cred_Certificate = ''CERT'',
            cred_PrivateKey = ''RSA PRIVATE KEY:pkcs1:key'',
            cred_Subscriptions = [''app/clients/go-thinq-0/push'']\<rparr>
   \<and> rsa_GenerateKey sample_lib 2048 = Some ''key''
   \<and> x509_CreateCertificateRequest sample_lib \<lparr>Subject = \<lparr>CommonName = ''lg_thinq''\<rparr>\<rparr> ''key''
       = Some ''lg_thinq/key''"
proof -
  have run: "GetMQTTCredentials sample_lib backend_signing sample_client
     = Inr \<lparr>cred_Certificate = ''CERT'',
            cred_PrivateKey = ''RSA PRIVATE KEY:pkcs1:key'',
            cred_Subscriptions = [''app/clients/go-thinq-0/push'']\<rparr>"
    by (simp add: GetMQTTCredentials_def registerClient_def generateCSR_def sample_lib_def
          backend_signing_def signed_certificate_def StatusOK_def StatusConflict_def Let_def)
  from identity_acquisition [OF run] show ?thesis
    using run by (auto simp: sample_lib_def)
qed

section \<open>The configured minimum\<close>

text \<open>
  C5. A configured minimum temperature \<open>v\<close> (the integer \<^verbatim>\<open>MIN_TEMPERATURE\<close> parses to)
  below 21 is stored as exactly 21, and one of 21 or above is stored unchanged; the
  handler built from the loaded configuration captures the stored value, so the policy is
  only ever evaluated on it.
\<close>

theorem Load_clamps_minimum:
  assumes "Load ok getenv uuid = Inr cfg"
    and "Atoi (getenv ''MIN_TEMPERATURE'') = Some v"
  shows "MinTemperature cfg = (if v < 21 then 21 else v)
       \<and> minTemperature (createMessageHandler_min c devices (MinTemperature cfg))
           = (if v < 21 then 21 else v)"
  using Load_Inr [OF assms(1)] assms(2) by (simp add: createMessageHandler_min_def)

theorem Load_clamps_minimum_witness:
  "MinTemperature (projr (Load True (sample_env ''18'') ''u'')) = 21
   \<and> MinTemperature (projr (Load True (sample_env ''23'') ''u'')) = 23"
proof -
  have a: "Load True (sample_env ''18'') ''u''
      = Inr (projr (Load True (sample_env ''18'') ''u''))"
    by (simp add: Load_def sample_env_def Let_def)
  have b: "Load True (sample_env ''23'') ''u''
      = Inr (projr (Load True (sample_env ''23'') ''u''))"
    by (simp add: Load_def sample_env_def Let_def)
  have a18: "Atoi (sample_env ''18'' ''MIN_TEMPERATURE'') = Some 18"
    by (simp add: sample_env_def Atoi_def digit_of_def)
  have a23: "Atoi (sample_env ''23'' ''MIN_TEMPERATURE'') = Some 23"
    by (simp add: sample_env_def Atoi_def digit_of_def)
  show ?thesis
    using Load_clamps_minimum [OF a a18] Load_clamps_minimum [OF b a23] by simp
qed

text \<open>
  C10. Whether \<open>Load\<close> fails is decided by the environment file and the access token
  alone, never by the minimum-temperature setting; a setting that does not parse as an
  integer gives the default 21; and every loaded configuration has a minimum temperature
  of at least 21.
\<close>

theorem Load_minimum_never_fails:
  "(isl (Load ok getenv uuid) \<longleftrightarrow> \<not> ok \<or> getenv ''THINQ_PAT'' = [])
   \<and> (\<forall>cfg. Load ok getenv uuid = Inr cfg \<longrightarrow>
         21 \<le> MinTemperature cfg
         \<and> (Atoi (getenv ''MIN_TEMPERATURE'') = None \<longrightarrow> MinTemperature cfg = 21))"
proof (intro conjI allI impI)
  show "isl (Load ok getenv uuid) \<longleftrightarrow> \<not> ok \<or> getenv ''THINQ_PAT'' = []"
    by (rule Load_fails_iff)
next
  fix cfg assume "Load ok getenv uuid = Inr cfg"
  from Load_Inr [OF this] show "21 \<le> MinTemperature cfg"
    by (simp split: option.splits)
next
  fix cfg assume "Load ok getenv uuid = Inr cfg"
    and "Atoi (getenv ''MIN_TEMPERATURE'') = None"
  with Load_Inr [of ok getenv uuid cfg] show "MinTemperature cfg = 21"
    by simp
qed

theorem Load_minimum_never_fails_witness:
  "Atoi (sample_env ''warm'' ''MIN_TEMPERATURE'') = None
   \<and> \<not> isl (Load True (sample_env ''warm'') ''u'')
   \<and> MinTemperature (projr (Load True (sample_env ''warm'') ''u'')) = 21"
proof -
  have a: "Load True (sample_env ''warm'') ''u''
      = Inr (projr (Load True (sample_env ''warm'') ''u''))"
    by (simp add: Load_def sample_env_def Let_def)
  have n: "Atoi (sample_env ''warm'' ''MIN_TEMPERATURE'') = None"
    by (simp add: sample_env_def Atoi_def digit_of_def)
  have p: "sample_env ''warm'' ''THINQ_PAT'' \<noteq> []"
    by (simp add: sample_env_def)
  show ?thesis
    using Load_minimum_never_fails [of True "sample_env ''warm''" "''u''"] a n p by auto
qed

end
